theory Spec2Isabelle
  imports Main "HOL-Library.Word" "HOL-Library.Signed_Division"
begin

section \<open>Data model of the cache package\<close>

text \<open>
  Timestamps (\<open>UnixNano\<close>) and durations (\<open>time.Duration\<close>) are Go \<open>int64\<close> values:
  64-bit words, added with wrap-around and compared as signed numbers
  (\<open><s\<close>, \<open>\<le>s\<close>). A \<open>[]byte\<close> is a list of 8-bit words. A Go map is a partial
  function: \<open>m k\<close> reads, \<open>m(k \<mapsto> v)\<close> writes, \<open>m(k := None)\<close> is \<open>delete(m, k)\<close>.
\<close>

type_synonym int64 = "64 word"
type_synonym bytes = "8 word list"

definition cacheTypeDefault :: string where "cacheTypeDefault = ''memory''"
definition cacheTypeFile :: string where "cacheTypeFile = ''file''"
definition cacheTypeRedis :: string where "cacheTypeRedis = ''redis''"
definition cacheTypeMemcache :: string where "cacheTypeMemcache = ''memcache''"
definition defaultExpiration :: int64 where "defaultExpiration = 0"

text \<open>
  The package's error values. \<open>ErrMarshal\<close> stands for whatever error
  \<open>json.MarshalIndent\<close> returns, \<open>ErrFileWrite\<close> for the error of \<open>file.Write\<close>, and
  \<open>ErrStore\<close> for an error of the redis or memcache client; \<open>set\<close> and \<open>NewMemCache\<close>
  hand these on as they are.
\<close>

datatype error =
    ErrCacheNotFound
  | ErrCacheExpired
  | ErrConnectingRedis
  | ErrCreatingFile
  | ErrCacheAlreadyExists
  | ErrMarshal
  | ErrFileWrite
  | ErrStore

record cacheItem =
  item_value :: bytes
  item_expiration :: int64

record cacheCleaner =
  interval :: int64   \<comment> \<open>the duration the timer is set to fire after\<close>
  stop :: bool        \<comment> \<open>whether the stop signal has been sent\<close>

subsection \<open>The file system behind package \<open>os\<close>\<close>

text \<open>
  The part of the file system that the package reaches: regular files by path, each with
  its content and modification time, and three predicates saying for which paths
  \<open>os.OpenFile\<close>, \<open>file.Write\<close> and \<open>ioutil.ReadFile\<close> fail (missing directory,
  permissions, full disk). Writing sets the modification time to the current clock reading.
\<close>

record fileInfo =
  content :: bytes
  ModTime :: int64

record filesystem =
  files :: "string \<rightharpoonup> fileInfo"
  open_fails :: "string \<Rightarrow> bool"
  write_fails :: "string \<Rightarrow> bool"
  read_fails :: "string \<Rightarrow> bool"

definition os_Stat :: "filesystem \<Rightarrow> string \<Rightarrow> fileInfo option" where
  "os_Stat d p = files d p"

definition os_Remove :: "filesystem \<Rightarrow> string \<Rightarrow> filesystem" where
  "os_Remove d p = d\<lparr>files := (files d)(p := None)\<rparr>"

text \<open>\<open>os.OpenFile\<close> with \<open>O_CREATE|O_WRONLY|O_TRUNC\<close>: the file exists and is empty afterwards.\<close>

definition os_OpenFile :: "filesystem \<Rightarrow> int64 \<Rightarrow> string \<Rightarrow> filesystem option" where
  "os_OpenFile d now p =
     (if open_fails d p then None
      else Some (d\<lparr>files := (files d)(p \<mapsto> \<lparr>content = [], ModTime = now\<rparr>)\<rparr>))"

definition file_Write :: "filesystem \<Rightarrow> int64 \<Rightarrow> string \<Rightarrow> bytes \<Rightarrow> filesystem option" where
  "file_Write d now p val =
     (if write_fails d p then None
      else Some (d\<lparr>files := (files d)(p \<mapsto> \<lparr>content = val, ModTime = now\<rparr>)\<rparr>))"

definition ioutil_ReadFile :: "filesystem \<Rightarrow> string \<Rightarrow> bytes option" where
  "ioutil_ReadFile d p =
     (if read_fails d p then None else map_option content (files d p))"

subsection \<open>The remote key-value stores\<close>

text \<open>
  The redis and memcache servers, seen through their clients: an entry holds the value and
  the deadline the store computed from the TTL parameter of the write (\<open>0\<close>: the entry is
  persistent); \<open>kv_down\<close> says that the server cannot be reached, so that every command
  fails. A TTL parameter that is not positive makes the entry persistent (the package
  hands on a TTL that is positive or 0, and both clients read 0 as no expiry).
\<close>

record kventry =
  kv_value :: bytes
  kv_deadline :: int64

record kvstore =
  kv_entries :: "string \<rightharpoonup> kventry"
  kv_down :: bool

definition kv_Ping :: "kvstore \<Rightarrow> bool" where
  "kv_Ping s = (\<not> kv_down s)"

definition kv_Get :: "kvstore \<Rightarrow> int64 \<Rightarrow> string \<Rightarrow> bytes option" where
  "kv_Get s now k =
     (if kv_down s then None
      else case kv_entries s k of
             None \<Rightarrow> None
           | Some e \<Rightarrow>
               if kv_deadline e \<noteq> 0 \<and> kv_deadline e <s now then None
               else Some (kv_value e))"

definition kv_Set :: "kvstore \<Rightarrow> int64 \<Rightarrow> string \<Rightarrow> bytes \<Rightarrow> int64 \<Rightarrow> kvstore option" where
  "kv_Set s now k val ttl =
     (if kv_down s then None
      else Some (s\<lparr>kv_entries :=
             (kv_entries s)(k \<mapsto> \<lparr>kv_value = val,
                                   kv_deadline = (if 0 <s ttl then now + ttl else 0)\<rparr>)\<rparr>))"

definition kv_Del :: "kvstore \<Rightarrow> string \<Rightarrow> kvstore" where
  "kv_Del s k = (if kv_down s then s else s\<lparr>kv_entries := (kv_entries s)(k := None)\<rparr>)"

definition kv_FlushAll :: "kvstore \<Rightarrow> kvstore" where
  "kv_FlushAll s = (if kv_down s then s else s\<lparr>kv_entries := Map.empty\<rparr>)"

text \<open>
  \<open>int32(c.expiration.Seconds())\<close>, the TTL that memcache receives in whole seconds, given
  back in nanoseconds. \<open>Seconds\<close> is a floating-point number; the model takes the quotient
  truncated towards zero, which is its value whenever the duration is a whole number of
  seconds that fits 32 bits, in particular at \<open>0\<close>.
\<close>

definition memcache_ttl :: "int64 \<Rightarrow> int64" where
  "memcache_ttl d = word_of_int ((sint d sdiv 1000000000) * 1000000000)"

subsection \<open>The cache instance\<close>

text \<open>
  The fields of the Go struct (the mutex apart), and two more: \<open>disk\<close>, the file system
  that the Local File backend reads and writes, and \<open>sweeping\<close>, whether
  \<open>cleanExpiredCache\<close> has started the background goroutine. A client handle that a
  constructor leaves \<open>nil\<close> is a store that is never used.
\<close>

record cache =
  cacheType :: string
  expiration :: int64
  items :: "string \<rightharpoonup> cacheItem"
  filePath :: string
  cacheFiles :: "string list"
  redisClient :: kvstore
  memCacheClient :: kvstore
  cleaner :: "cacheCleaner option"
  disk :: filesystem
  sweeping :: bool

definition no_client :: kvstore where
  "no_client = \<lparr>kv_entries = Map.empty, kv_down = True\<rparr>"

definition no_disk :: filesystem where
  "no_disk = \<lparr>files = Map.empty, open_fails = (\<lambda>_. True), write_fails = (\<lambda>_. True),
               read_fails = (\<lambda>_. True)\<rparr>"

definition key_path :: "cache \<Rightarrow> string \<Rightarrow> string" where
  "key_path c key = filePath c @ ''/'' @ key"

section \<open>Constructors\<close>

text \<open>
  \<open>cleanExpiredCache\<close> returns at once without a cleaner or on a remote backend; otherwise
  it starts the goroutine whose loop body is \<open>sweep_pass\<close> below.
\<close>

definition cleanExpiredCache :: "cache \<Rightarrow> cache" where
  "cleanExpiredCache c =
     (if cleaner c = None then c
      else if cacheType c = cacheTypeMemcache \<or> cacheType c = cacheTypeRedis then c
      else c\<lparr>sweeping := True\<rparr>)"

definition NewDefaultCache :: "int64 \<Rightarrow> error + cache" where
  "NewDefaultCache expiration0 =
     (let (expiration1, cleaner1) =
            (if expiration0 \<le>s defaultExpiration then (defaultExpiration, None)
             else (expiration0, Some \<lparr>interval = expiration0, stop = False\<rparr>))
      in Inr (cleanExpiredCache
           \<lparr>cacheType = cacheTypeDefault, expiration = expiration1, items = Map.empty,
            filePath = [], cacheFiles = [], redisClient = no_client,
            memCacheClient = no_client, cleaner = cleaner1, disk = no_disk,
            sweeping = False\<rparr>))"

definition NewFileCache :: "int64 \<Rightarrow> string \<Rightarrow> filesystem \<Rightarrow> error + cache" where
  "NewFileCache expiration0 path d =
     (let (expiration1, cleaner1) =
            (if expiration0 \<le>s defaultExpiration then (defaultExpiration, None)
             else (expiration0, Some \<lparr>interval = expiration0, stop = False\<rparr>))
      in Inr (cleanExpiredCache
           \<lparr>cacheType = cacheTypeFile, expiration = expiration1, items = Map.empty,
            filePath = path, cacheFiles = [], redisClient = no_client,
            memCacheClient = no_client, cleaner = cleaner1, disk = d,
            sweeping = False\<rparr>))"

text \<open>The server reached at \<open>host\<close> with \<open>password\<close> is the argument \<open>server\<close>.\<close>

definition NewRedisCache :: "int64 \<Rightarrow> kvstore \<Rightarrow> error + cache" where
  "NewRedisCache expiration0 server =
     (if \<not> kv_Ping server then Inl ErrConnectingRedis
      else Inr \<lparr>cacheType = cacheTypeRedis,
                expiration = (if expiration0 \<le>s defaultExpiration then defaultExpiration
                              else expiration0),
                items = Map.empty, filePath = [], cacheFiles = [], redisClient = server,
                memCacheClient = no_client, cleaner = None, disk = no_disk,
                sweeping = False\<rparr>)"

definition NewMemCache :: "int64 \<Rightarrow> kvstore \<Rightarrow> error + cache" where
  "NewMemCache expiration0 server =
     (let expiration1 = (if expiration0 \<le>s defaultExpiration then defaultExpiration
                         else expiration0)
      in if \<not> kv_Ping server then Inl ErrStore
         else Inr \<lparr>cacheType = cacheTypeMemcache, expiration = expiration1,
                   items = Map.empty, filePath = [], cacheFiles = [], redisClient = no_client,
                   memCacheClient = server, cleaner = None, disk = no_disk,
                   sweeping = False\<rparr>)"

section \<open>Operations\<close>

text \<open>
  Every operation that reads the clock takes \<open>now\<close>, the value of
  \<open>time.Now().UnixNano()\<close> during the call (one reading for the whole call: \<open>Add\<close> uses
  it for the existence check and for the write), and the instance; it returns its result
  with the instance as the call leaves it. The calls run one at a time, as under the
  instance's lock.
\<close>

definition Delete :: "string \<Rightarrow> cache \<Rightarrow> cache" where
  "Delete key c =
     (if cacheType c = cacheTypeDefault then c\<lparr>items := (items c)(key := None)\<rparr>
      else if cacheType c = cacheTypeFile then c\<lparr>disk := os_Remove (disk c) (key_path c key)\<rparr>
      else if cacheType c = cacheTypeRedis then c\<lparr>redisClient := kv_Del (redisClient c) key\<rparr>
      else if cacheType c = cacheTypeMemcache
        then c\<lparr>memCacheClient := kv_Del (memCacheClient c) key\<rparr>
      else c)"

definition Flush :: "cache \<Rightarrow> cache" where
  "Flush c =
     (if cacheType c = cacheTypeDefault then c\<lparr>items := Map.empty\<rparr>
      else if cacheType c = cacheTypeFile
        then c\<lparr>disk := foldl (\<lambda>d key. os_Remove d (key_path c key)) (disk c) (cacheFiles c)\<rparr>
      else if cacheType c = cacheTypeRedis then c\<lparr>redisClient := kv_FlushAll (redisClient c)\<rparr>
      else if cacheType c = cacheTypeMemcache
        then c\<lparr>memCacheClient := kv_FlushAll (memCacheClient c)\<rparr>
      else c)"

text \<open>The value codec \<open>json.MarshalIndent\<close> is the parameter \<open>codec\<close>; \<open>None\<close> is its error.
  The unexported \<open>set\<close> of the source is \<open>set_cache\<close> here.\<close>

definition set_cache :: "('v \<Rightarrow> bytes option) \<Rightarrow> int64 \<Rightarrow> string \<Rightarrow> 'v \<Rightarrow> cache \<Rightarrow> error option \<times> cache" where
  "set_cache codec now key v c =
     (case codec v of
        None \<Rightarrow> (Some ErrMarshal, c)
      | Some val \<Rightarrow>
          let expiration1 = (if defaultExpiration <s expiration c then now + expiration c else 0)
          in if cacheType c = cacheTypeDefault then
               (None, c\<lparr>items := (items c)(key \<mapsto>
                          \<lparr>item_value = val, item_expiration = expiration1\<rparr>)\<rparr>)
             else if cacheType c = cacheTypeFile then
               (case os_OpenFile (disk c) now (key_path c key) of
                  None \<Rightarrow> (Some ErrCreatingFile, c)
                | Some d1 \<Rightarrow>
                    (case file_Write d1 now (key_path c key) val of
                       None \<Rightarrow> (Some ErrFileWrite, c\<lparr>disk := d1\<rparr>)
                     | Some d2 \<Rightarrow>
                         (None, c\<lparr>disk := d2, cacheFiles := List.insert key (cacheFiles c)\<rparr>)))
             else if cacheType c = cacheTypeRedis then
               (case kv_Set (redisClient c) now key val (expiration c) of
                  None \<Rightarrow> (Some ErrStore, c)
                | Some s \<Rightarrow> (None, c\<lparr>redisClient := s\<rparr>))
             else if cacheType c = cacheTypeMemcache then
               (case kv_Set (memCacheClient c) now key val (memcache_ttl (expiration c)) of
                  None \<Rightarrow> (Some ErrStore, c)
                | Some s \<Rightarrow> (None, c\<lparr>memCacheClient := s\<rparr>))
             else (None, c))"

definition has :: "int64 \<Rightarrow> string \<Rightarrow> cache \<Rightarrow> bool \<times> cache" where
  "has now key c =
     (if cacheType c = cacheTypeDefault then
        (case items c key of
           None \<Rightarrow> (False, c)
         | Some item \<Rightarrow>
             if 0 <s item_expiration item \<and> item_expiration item <s now
             then (False, c\<lparr>items := (items c)(key := None)\<rparr>)
             else (True, c))
      else if cacheType c = cacheTypeFile then
        (case os_Stat (disk c) (key_path c key) of
           None \<Rightarrow> (False, c)
         | Some info \<Rightarrow>
             if 0 <s expiration c \<and> (expiration c + ModTime info) <s now
             then (False, c\<lparr>disk := os_Remove (disk c) (key_path c key)\<rparr>)
             else (True, c))
      else if cacheType c = cacheTypeRedis then
        (case kv_Get (redisClient c) now key of None \<Rightarrow> (False, c) | Some _ \<Rightarrow> (True, c))
      else if cacheType c = cacheTypeMemcache then
        (case kv_Get (memCacheClient c) now key of None \<Rightarrow> (False, c) | Some _ \<Rightarrow> (True, c))
      else (False, c))"

definition Has :: "int64 \<Rightarrow> string \<Rightarrow> cache \<Rightarrow> bool \<times> cache" where
  "Has now key c = has now key c"

definition Set :: "('v \<Rightarrow> bytes option) \<Rightarrow> int64 \<Rightarrow> string \<Rightarrow> 'v \<Rightarrow> cache \<Rightarrow> error option \<times> cache" where
  "Set codec now key v c = set_cache codec now key v c"

definition Add :: "('v \<Rightarrow> bytes option) \<Rightarrow> int64 \<Rightarrow> string \<Rightarrow> 'v \<Rightarrow> cache \<Rightarrow> error option \<times> cache" where
  "Add codec now key v c =
     (case has now key c of
        (True, c1) \<Rightarrow> (Some ErrCacheAlreadyExists, c1)
      | (False, c1) \<Rightarrow> set_cache codec now key v c1)"

definition getDefaultCache :: "int64 \<Rightarrow> string \<Rightarrow> bool \<Rightarrow> cache \<Rightarrow> (error + bytes) \<times> cache" where
  "getDefaultCache now key removeCurrent c =
     (case items c key of
        None \<Rightarrow> (Inl ErrCacheNotFound, c)
      | Some item \<Rightarrow>
          if 0 <s item_expiration item \<and> item_expiration item <s now
          then (Inl ErrCacheExpired, c\<lparr>items := (items c)(key := None)\<rparr>)
          else (Inr (item_value item),
                if removeCurrent then c\<lparr>items := (items c)(key := None)\<rparr> else c))"

definition getFileCache :: "int64 \<Rightarrow> string \<Rightarrow> bool \<Rightarrow> cache \<Rightarrow> (error + bytes) \<times> cache" where
  "getFileCache now key removeCurrent c =
     (case os_Stat (disk c) (key_path c key) of
        None \<Rightarrow> (Inl ErrCacheNotFound, c)
      | Some info \<Rightarrow>
          if 0 <s expiration c \<and> (expiration c + ModTime info) <s now
          then (Inl ErrCacheExpired, c\<lparr>disk := os_Remove (disk c) (key_path c key)\<rparr>)
          else (case ioutil_ReadFile (disk c) (key_path c key) of
                  None \<Rightarrow> (Inl ErrCacheNotFound, c)
                | Some val \<Rightarrow>
                    (Inr val,
                     if removeCurrent then c\<lparr>disk := os_Remove (disk c) (key_path c key)\<rparr>
                     else c)))"

definition getRedisCache :: "int64 \<Rightarrow> string \<Rightarrow> bool \<Rightarrow> cache \<Rightarrow> (error + bytes) \<times> cache" where
  "getRedisCache now key removeCurrent c =
     (case kv_Get (redisClient c) now key of
        None \<Rightarrow> (Inl ErrCacheNotFound, c)
      | Some val \<Rightarrow>
          (Inr val,
           if removeCurrent then c\<lparr>redisClient := kv_Del (redisClient c) key\<rparr> else c))"

definition getMemCache :: "int64 \<Rightarrow> string \<Rightarrow> bool \<Rightarrow> cache \<Rightarrow> (error + bytes) \<times> cache" where
  "getMemCache now key removeCurrent c =
     (case kv_Get (memCacheClient c) now key of
        None \<Rightarrow> (Inl ErrCacheNotFound, c)
      | Some val \<Rightarrow>
          (Inr val,
           if removeCurrent then c\<lparr>memCacheClient := kv_Del (memCacheClient c) key\<rparr> else c))"

definition Get :: "int64 \<Rightarrow> string \<Rightarrow> cache \<Rightarrow> (error + bytes) \<times> cache" where
  "Get now key c =
     (if cacheType c = cacheTypeDefault then getDefaultCache now key False c
      else if cacheType c = cacheTypeFile then getFileCache now key False c
      else if cacheType c = cacheTypeRedis then getRedisCache now key False c
      else if cacheType c = cacheTypeMemcache then getMemCache now key False c
      else (Inl ErrCacheNotFound, c))"

definition Pull :: "int64 \<Rightarrow> string \<Rightarrow> cache \<Rightarrow> (error + bytes) \<times> cache" where
  "Pull now key c =
     (if cacheType c = cacheTypeDefault then getDefaultCache now key True c
      else if cacheType c = cacheTypeFile then getFileCache now key True c
      else if cacheType c = cacheTypeRedis then getRedisCache now key True c
      else if cacheType c = cacheTypeMemcache then getMemCache now key True c
      else (Inl ErrCacheNotFound, c))"

subsection \<open>The sweeper\<close>

text \<open>
  One pass of the goroutine's loop when the timer fires: the existence check on every key
  of \<open>c.items\<close> (Local Map) or of \<open>c.cacheFiles\<close> (Local File, where the source starts one
  goroutine per key; here they run one after the other), then
  \<open>c.cleaner.interval.Reset(c.expiration)\<close>. The argument \<open>ks\<close> is the sequence of keys
  that \<open>range c.items\<close> yields, in the order the runtime chooses.
\<close>

definition sweep_keys :: "int64 \<Rightarrow> string list \<Rightarrow> cache \<Rightarrow> cache" where
  "sweep_keys now ks c = foldl (\<lambda>c1 key. snd (has now key c1)) c ks"

definition sweep_pass :: "int64 \<Rightarrow> string list \<Rightarrow> cache \<Rightarrow> cache" where
  "sweep_pass now ks c =
     (let c1 = (if cacheType c = cacheTypeDefault then sweep_keys now ks c
                else if cacheType c = cacheTypeFile then sweep_keys now (cacheFiles c) c
                else c)
      in c1\<lparr>cleaner := map_option (\<lambda>cl. cl\<lparr>interval := expiration c1\<rparr>) (cleaner c1)\<rparr>)"


subsection \<open>Sequences of calls\<close>

text \<open>
  A client's view of an instance: the calls of the \<open>Cache\<close> interface, each with the clock
  reading at which it runs, and \<open>Timer_fires ks\<close>, one pass of the sweeper (which runs
  only when the goroutine was started). \<open>run\<close> gives what each call returns and the final
  instance.
\<close>

datatype 'v call =
    Call_Add string 'v
  | Call_Set string 'v
  | Call_Get string
  | Call_Pull string
  | Call_Has string
  | Call_Delete string
  | Call_Flush
  | Timer_fires "string list"

datatype outcome =
    Returned_error "error option"
  | Returned_bytes "error + bytes"
  | Returned_bool bool
  | Returned_nothing

fun step :: "('v \<Rightarrow> bytes option) \<Rightarrow> int64 \<Rightarrow> 'v call \<Rightarrow> cache \<Rightarrow> outcome \<times> cache" where
  "step codec now (Call_Add key v) c =
     (case Add codec now key v c of (r, c1) \<Rightarrow> (Returned_error r, c1))"
| "step codec now (Call_Set key v) c =
     (case Set codec now key v c of (r, c1) \<Rightarrow> (Returned_error r, c1))"
| "step codec now (Call_Get key) c =
     (case Get now key c of (r, c1) \<Rightarrow> (Returned_bytes r, c1))"
| "step codec now (Call_Pull key) c =
     (case Pull now key c of (r, c1) \<Rightarrow> (Returned_bytes r, c1))"
| "step codec now (Call_Has key) c =
     (case Has now key c of (r, c1) \<Rightarrow> (Returned_bool r, c1))"
| "step codec now (Call_Delete key) c = (Returned_nothing, Delete key c)"
| "step codec now Call_Flush c = (Returned_nothing, Flush c)"
| "step codec now (Timer_fires ks) c =
     (Returned_nothing, if sweeping c then sweep_pass now ks c else c)"

fun run :: "('v \<Rightarrow> bytes option) \<Rightarrow> (int64 \<times> 'v call) list \<Rightarrow> cache \<Rightarrow> outcome list \<times> cache" where
  "run codec [] c = ([], c)"
| "run codec ((now, call) # rest) c =
     (case step codec now call c of
        (r, c1) \<Rightarrow> (case run codec rest c1 of (rs, c2) \<Rightarrow> (r # rs, c2)))"

section \<open>Vocabulary of the specification\<close>

text \<open>
  What the specification calls an entry, per backend: the map entry of Local Map, the file
  named after the key of Local File, the store's entry of Remote KV. An entry is
  \<open>present\<close> when it is there, and \<open>stale\<close> at a clock reading when an expiry is in force
  and the reading is past it: the recorded timestamp of Local Map (in force when positive),
  modification time plus TTL of Local File (in force when the TTL is positive), the
  store's own deadline of Remote KV (in force when not 0). \<open>payload\<close> is the stored
  bytes, \<open>reachable\<close> says that the remote store answers, \<open>readable\<close> that the file of
  the key can be read.
\<close>

definition present :: "string \<Rightarrow> cache \<Rightarrow> bool" where
  "present key c =
     (if cacheType c = cacheTypeDefault then items c key \<noteq> None
      else if cacheType c = cacheTypeFile then files (disk c) (key_path c key) \<noteq> None
      else if cacheType c = cacheTypeRedis then kv_entries (redisClient c) key \<noteq> None
      else if cacheType c = cacheTypeMemcache then kv_entries (memCacheClient c) key \<noteq> None
      else False)"

definition stale :: "int64 \<Rightarrow> string \<Rightarrow> cache \<Rightarrow> bool" where
  "stale now key c =
     (if cacheType c = cacheTypeDefault then
        (case items c key of None \<Rightarrow> False
         | Some item \<Rightarrow> 0 <s item_expiration item \<and> item_expiration item <s now)
      else if cacheType c = cacheTypeFile then
        (case files (disk c) (key_path c key) of None \<Rightarrow> False
         | Some info \<Rightarrow> 0 <s expiration c \<and> expiration c + ModTime info <s now)
      else if cacheType c = cacheTypeRedis then
        (case kv_entries (redisClient c) key of None \<Rightarrow> False
         | Some e \<Rightarrow> kv_deadline e \<noteq> 0 \<and> kv_deadline e <s now)
      else if cacheType c = cacheTypeMemcache then
        (case kv_entries (memCacheClient c) key of None \<Rightarrow> False
         | Some e \<Rightarrow> kv_deadline e \<noteq> 0 \<and> kv_deadline e <s now)
      else False)"

definition payload :: "string \<Rightarrow> cache \<Rightarrow> bytes option" where
  "payload key c =
     (if cacheType c = cacheTypeDefault then map_option item_value (items c key)
      else if cacheType c = cacheTypeFile
        then map_option content (files (disk c) (key_path c key))
      else if cacheType c = cacheTypeRedis
        then map_option kv_value (kv_entries (redisClient c) key)
      else if cacheType c = cacheTypeMemcache
        then map_option kv_value (kv_entries (memCacheClient c) key)
      else None)"

definition reachable :: "cache \<Rightarrow> bool" where
  "reachable c =
     ((cacheType c = cacheTypeRedis \<longrightarrow> \<not> kv_down (redisClient c)) \<and>
      (cacheType c = cacheTypeMemcache \<longrightarrow> \<not> kv_down (memCacheClient c)))"

definition readable :: "string \<Rightarrow> cache \<Rightarrow> bool" where
  "readable key c =
     (cacheType c = cacheTypeFile \<longrightarrow> \<not> read_fails (disk c) (key_path c key))"

definition known_backend :: "cache \<Rightarrow> bool" where
  "known_backend c =
     (cacheType c = cacheTypeDefault \<or> cacheType c = cacheTypeFile \<or>
      cacheType c = cacheTypeRedis \<or> cacheType c = cacheTypeMemcache)"

definition local_backend :: "cache \<Rightarrow> bool" where
  "local_backend c = (cacheType c = cacheTypeDefault \<or> cacheType c = cacheTypeFile)"

text \<open>
  The TTL that a write hands to its backend: the configured duration, which memcache
  receives in whole seconds.
\<close>

definition write_ttl :: "cache \<Rightarrow> int64" where
  "write_ttl c =
     (if cacheType c = cacheTypeMemcache then memcache_ttl (expiration c) else expiration c)"

text \<open>
  Two instances have the same configuration when the fields that no operation is meant to
  change agree, and the second knows every file name the first knows.
\<close>

definition same_config :: "cache \<Rightarrow> cache \<Rightarrow> bool" where
  "same_config c c1 =
     (cacheType c1 = cacheType c \<and> expiration c1 = expiration c \<and>
      filePath c1 = filePath c \<and> sweeping c1 = sweeping c \<and>
      (cleaner c1 = None) = (cleaner c = None) \<and>
      List.set (cacheFiles c) \<subseteq> List.set (cacheFiles c1))"

section \<open>Instances for the examples\<close>

text \<open>
  The instances of the package's tests: \<open>NewDefaultCache(5 * time.Second)\<close> and
  \<open>NewFileCache(5 * time.Second, "cache")\<close> with the key \<open>"cache_key"\<close>, written at clock
  reading 100; an instance that never expires; a redis instance whose server holds an entry
  past its deadline. The codec of the examples takes a value that is either some bytes,
  which it returns as they are, or \<open>None\<close>, a value that cannot be encoded (a Go channel).
  \<open>empty_disk\<close> is a directory and \<open>empty_server\<close> a server where nothing fails.
\<close>

definition test_codec :: "bytes option \<Rightarrow> bytes option" where
  "test_codec v = v"

definition test_value :: bytes where
  "test_value = [34, 118, 97, 108, 117, 101, 34]"

definition empty_disk :: filesystem where
  "empty_disk = \<lparr>files = Map.empty, open_fails = (\<lambda>_. False), write_fails = (\<lambda>_. False),
                  read_fails = (\<lambda>_. False)\<rparr>"

definition empty_server :: kvstore where
  "empty_server = \<lparr>kv_entries = Map.empty, kv_down = False\<rparr>"

definition test_cache :: cache where
  "test_cache = projr (NewDefaultCache 5000000000)"

definition test_cache_written :: cache where
  "test_cache_written = snd (Set test_codec 100 ''cache_key'' (Some test_value) test_cache)"

definition test_file_cache :: cache where
  "test_file_cache = projr (NewFileCache 5000000000 ''cache'' empty_disk)"

definition test_file_cache_written :: cache where
  "test_file_cache_written =
     snd (Set test_codec 100 ''cache_key'' (Some test_value) test_file_cache)"

definition forever_cache :: cache where
  "forever_cache = projr (NewDefaultCache 0)"

definition forever_cache_written :: cache where
  "forever_cache_written =
     snd (Set test_codec 100 ''cache_key'' (Some test_value) forever_cache)"

definition test_redis_cache :: cache where
  "test_redis_cache =
     projr (NewRedisCache 5000000000
       \<lparr>kv_entries = [''cache_key'' \<mapsto> \<lparr>kv_value = test_value, kv_deadline = 50\<rparr>],
        kv_down = False\<rparr>)"

section \<open>How the operations act on entries\<close>

lemmas cache_consts =
  cacheTypeDefault_def cacheTypeFile_def cacheTypeRedis_def cacheTypeMemcache_def
  defaultExpiration_def

lemma type_neq [simp]:
  "cacheTypeDefault \<noteq> cacheTypeFile" "cacheTypeDefault \<noteq> cacheTypeRedis"
  "cacheTypeDefault \<noteq> cacheTypeMemcache" "cacheTypeFile \<noteq> cacheTypeRedis"
  "cacheTypeFile \<noteq> cacheTypeMemcache" "cacheTypeRedis \<noteq> cacheTypeMemcache"
  "cacheTypeFile \<noteq> cacheTypeDefault" "cacheTypeRedis \<noteq> cacheTypeDefault"
  "cacheTypeMemcache \<noteq> cacheTypeDefault" "cacheTypeRedis \<noteq> cacheTypeFile"
  "cacheTypeMemcache \<noteq> cacheTypeFile" "cacheTypeMemcache \<noteq> cacheTypeRedis"
  by (simp_all add: cache_consts)

lemmas vocab_defs = present_def stale_def payload_def reachable_def readable_def
  known_backend_def local_backend_def

lemmas os_defs = os_Stat_def os_Remove_def os_OpenFile_def file_Write_def ioutil_ReadFile_def

lemmas kv_defs = kv_Get_def kv_Set_def kv_Del_def kv_FlushAll_def kv_Ping_def

lemmas new_defs = NewDefaultCache_def NewFileCache_def NewRedisCache_def NewMemCache_def
  cleanExpiredCache_def no_client_def no_disk_def

lemmas op_defs = Set_def set_cache_def Has_def has_def Get_def Pull_def Add_def Delete_def
  Flush_def getDefaultCache_def getFileCache_def getRedisCache_def getMemCache_def

lemmas eval_defs = new_defs op_defs vocab_defs os_defs kv_defs write_ttl_def key_path_def
  cache_consts word_sle_eq word_sless_alt Let_def

lemmas test_defs = test_codec_def test_value_def empty_disk_def empty_server_def
  test_cache_def test_cache_written_def test_file_cache_def test_file_cache_written_def
  forever_cache_def forever_cache_written_def test_redis_cache_def

lemma backend_cases [case_names Map File Redis Memcache Other]:
  assumes "cacheType c = cacheTypeDefault \<Longrightarrow> P"
    and "cacheType c = cacheTypeFile \<Longrightarrow> P"
    and "cacheType c = cacheTypeRedis \<Longrightarrow> P"
    and "cacheType c = cacheTypeMemcache \<Longrightarrow> P"
    and "\<lbrakk>cacheType c \<noteq> cacheTypeDefault; cacheType c \<noteq> cacheTypeFile;
          cacheType c \<noteq> cacheTypeRedis; cacheType c \<noteq> cacheTypeMemcache\<rbrakk> \<Longrightarrow> P"
  shows P
  using assms by blast

lemma has_result: "fst (has now key c) = (present key c \<and> \<not> stale now key c \<and> reachable c)"
  by (cases c rule: backend_cases)
     (simp_all add: has_def vocab_defs os_defs kv_defs split: option.splits)

lemma has_state:
  "snd (has now key c) = (if local_backend c \<and> stale now key c then Delete key c else c)"
  by (cases c rule: backend_cases)
     (simp_all add: has_def Delete_def vocab_defs os_defs kv_defs split: option.splits)

lemma Get_eq:
  "Get now key c =
   (if local_backend c \<and> stale now key c then (Inl ErrCacheExpired, Delete key c)
    else if present key c \<and> \<not> stale now key c \<and> reachable c \<and> readable key c
      then (Inr (the (payload key c)), c)
    else (Inl ErrCacheNotFound, c))"
  by (cases c rule: backend_cases)
     (simp_all add: Get_def getDefaultCache_def getFileCache_def getRedisCache_def getMemCache_def
      Delete_def vocab_defs os_defs kv_defs split: option.splits)

lemma Pull_eq:
  "Pull now key c =
   (if local_backend c \<and> stale now key c then (Inl ErrCacheExpired, Delete key c)
    else if present key c \<and> \<not> stale now key c \<and> reachable c \<and> readable key c
      then (Inr (the (payload key c)), Delete key c)
    else (Inl ErrCacheNotFound, c))"
  by (cases c rule: backend_cases)
     (simp_all add: Pull_def getDefaultCache_def getFileCache_def getRedisCache_def getMemCache_def
      Delete_def vocab_defs os_defs kv_defs split: option.splits)

lemma Add_eq:
  "Add codec now key v c =
     (if fst (has now key c) then (Some ErrCacheAlreadyExists, snd (has now key c))
      else set_cache codec now key v (snd (has now key c)))"
  by (cases "has now key c") (simp add: Add_def)

lemma stale_present: "stale now key c \<Longrightarrow> present key c"
  by (cases c rule: backend_cases) (auto simp: vocab_defs split: option.splits)


subsection \<open>What a write leaves behind\<close>


lemma memcache_ttl_0 [simp]: "memcache_ttl 0 = 0"
  by (simp add: memcache_ttl_def)


lemma set_effect:
  assumes "set_cache codec now key v c = (None, c1)" and "codec v = Some val"
    and "known_backend c"
  shows "present key c1 \<and> payload key c1 = Some val \<and> reachable c1 \<and>
         readable key c1 = readable key c \<and> cacheType c1 = cacheType c \<and>
         expiration c1 = expiration c \<and>
         (stale t key c1 \<longrightarrow> 0 <s write_ttl c \<and> now + write_ttl c <s t)"
  using assms
  by (cases c rule: backend_cases)
     (auto simp: set_cache_def vocab_defs os_defs kv_defs key_path_def write_ttl_def Let_def
        defaultExpiration_def add.commute split: option.splits if_splits)

lemma set_records:
  assumes "set_cache codec now key v c = (None, c1)" and "codec v = Some val"
  shows "(cacheType c = cacheTypeDefault \<longrightarrow>
            map_option item_expiration (items c1 key) =
              Some (if 0 <s expiration c then now + expiration c else 0)) \<and>
         (cacheType c = cacheTypeFile \<longrightarrow>
            map_option ModTime (files (disk c1) (key_path c1 key)) = Some now) \<and>
         (cacheType c = cacheTypeRedis \<longrightarrow>
            map_option kv_deadline (kv_entries (redisClient c1) key) =
              Some (if 0 <s expiration c then now + expiration c else 0)) \<and>
         (cacheType c = cacheTypeMemcache \<longrightarrow>
            map_option kv_deadline (kv_entries (memCacheClient c1) key) =
              Some (if 0 <s memcache_ttl (expiration c) then now + memcache_ttl (expiration c)
                    else 0))"
  using assms
  by (cases c rule: backend_cases)
     (auto simp: set_cache_def os_defs kv_defs key_path_def Let_def defaultExpiration_def
        split: option.splits if_splits)

lemma set_known:
  "set_cache codec now key v c = (None, c1) \<Longrightarrow> cacheType c = cacheTypeFile \<Longrightarrow>
   key \<in> List.set (cacheFiles c1)"
  by (auto simp: set_cache_def os_defs Let_def split: option.splits if_splits)




lemma new_zero_ttl:
  assumes "d \<le>s 0"
    and "NewDefaultCache d = Inr c \<or> NewFileCache d path fs = Inr c \<or>
         NewRedisCache d server = Inr c \<or> NewMemCache d server' = Inr c"
  shows "expiration c = 0 \<and> known_backend c"
  using assms
  by (auto simp: new_defs kv_Ping_def defaultExpiration_def known_backend_def Let_def
      split: if_splits)

subsection \<open>Flush and Delete\<close>



lemma Delete_local [simp]: "local_backend (Delete key c) = local_backend c"
  by (simp add: Delete_def local_backend_def)



lemma Delete_absent_id: "\<not> present key c \<Longrightarrow> Delete key c = c"
  by (cases c rule: backend_cases)
     (simp_all add: Delete_def present_def os_Remove_def kv_Del_def fun_upd_idem)

lemma foldl_Remove:
  "foldl (\<lambda>d key. os_Remove d (kp key)) d ks =
     d\<lparr>files := (\<lambda>p. if p \<in> kp ` List.set ks then None else files d p)\<rparr>"
proof (induction ks arbitrary: d)
  case Nil
  then show ?case by simp
next
  case (Cons k ks)
  have eq: "(\<lambda>p. if p \<in> kp ` List.set ks then None else files (os_Remove d (kp k)) p) =
            (\<lambda>p. if p \<in> kp ` List.set (k # ks) then None else files d p)"
    by (auto simp: os_Remove_def fun_eq_iff)
  have "foldl (\<lambda>d key. os_Remove d (kp key)) d (k # ks) =
        (os_Remove d (kp k))\<lparr>files :=
           (\<lambda>p. if p \<in> kp ` List.set ks then None else files (os_Remove d (kp k)) p)\<rparr>"
    by (simp only: foldl_Cons Cons.IH)
  also have "\<dots> = (os_Remove d (kp k))\<lparr>files :=
           (\<lambda>p. if p \<in> kp ` List.set (k # ks) then None else files d p)\<rparr>"
    by (simp only: eq)
  also have "\<dots> = d\<lparr>files := (\<lambda>p. if p \<in> kp ` List.set (k # ks) then None else files d p)\<rparr>"
    by (simp add: os_Remove_def)
  finally show ?case .
qed

lemma Flush_disk:
  "cacheType c = cacheTypeFile \<Longrightarrow>
   Flush c = c\<lparr>disk := (disk c)\<lparr>files :=
     (\<lambda>p. if p \<in> key_path c ` List.set (cacheFiles c) then None else files (disk c) p)\<rparr>\<rparr>"
  by (simp add: Flush_def foldl_Remove)

lemma key_path_disk [simp]: "key_path (c\<lparr>disk := d\<rparr>) = key_path c"
  by (simp add: key_path_def fun_eq_iff)

lemma Flush_idem: "Flush (Flush c) = Flush c"
proof (cases c rule: backend_cases)
  case File
  define A where "A = key_path c ` List.set (cacheFiles c)"
  define c1 where "c1 = c\<lparr>disk := (disk c)\<lparr>files :=
     (\<lambda>p. if p \<in> A then None else files (disk c) p)\<rparr>\<rparr>"
  have 1: "Flush c = c1"
    using File by (simp add: Flush_disk A_def c1_def)
  have t: "cacheType c1 = cacheTypeFile" and A1: "key_path c1 ` List.set (cacheFiles c1) = A"
    using File by (simp_all add: c1_def A_def)
  have eq: "(\<lambda>p. if p \<in> A then None else files (disk c1) p) =
            (\<lambda>p. if p \<in> A then None else files (disk c) p)"
    by (auto simp: c1_def fun_eq_iff)
  have "Flush c1 = c1\<lparr>disk := (disk c1)\<lparr>files :=
     (\<lambda>p. if p \<in> A then None else files (disk c1) p)\<rparr>\<rparr>"
    using Flush_disk [OF t] by (simp only: A1)
  also have "\<dots> = c1\<lparr>disk := (disk c1)\<lparr>files :=
     (\<lambda>p. if p \<in> A then None else files (disk c) p)\<rparr>\<rparr>"
    by (simp only: eq)
  also have "\<dots> = c1"
    by (simp add: c1_def)
  finally show ?thesis
    by (simp add: 1)
qed (simp_all add: Flush_def kv_FlushAll_def)

lemma has_Flush:
  "cacheType c = cacheTypeFile \<longrightarrow> key \<in> List.set (cacheFiles c) \<Longrightarrow>
   \<not> fst (has t key (Flush c))"
  by (cases c rule: backend_cases)
     (simp_all add: has_result Flush_def vocab_defs foldl_Remove kv_FlushAll_def key_path_def)

subsection \<open>What no operation changes\<close>

lemma same_config_refl [simp]: "same_config c c"
  by (simp add: same_config_def)

lemma same_config_trans: "same_config a b \<Longrightarrow> same_config b c \<Longrightarrow> same_config a c"
  by (auto simp: same_config_def)

lemma same_config_Delete [simp]: "same_config c (Delete key c)"
  by (simp add: same_config_def Delete_def)

lemma same_config_Flush [simp]: "same_config c (Flush c)"
  by (simp add: same_config_def Flush_def)

lemma same_config_has [simp]: "same_config c (snd (has now key c))"
  by (simp add: has_state)

lemma same_config_set [simp]: "same_config c (snd (set_cache codec now key v c))"
  by (cases c rule: backend_cases)
     (auto simp: same_config_def set_cache_def os_defs kv_defs Let_def split: option.splits)

lemma same_config_Get [simp]: "same_config c (snd (Get now key c))"
  by (simp add: Get_eq)

lemma same_config_Pull [simp]: "same_config c (snd (Pull now key c))"
  by (simp add: Pull_eq)

lemma same_config_Add [simp]: "same_config c (snd (Add codec now key v c))"
proof -
  have "same_config c (snd (set_cache codec now key v (snd (has now key c))))"
    by (rule same_config_trans [OF same_config_has same_config_set])
  then show ?thesis
    by (simp add: Add_eq)
qed

lemma same_config_sweep_keys [simp]: "same_config c (sweep_keys now ks c)"
proof (induction ks arbitrary: c)
  case Nil
  then show ?case by (simp add: sweep_keys_def)
next
  case (Cons k ks)
  have "sweep_keys now (k # ks) c = sweep_keys now ks (snd (has now k c))"
    by (simp add: sweep_keys_def)
  then show ?case
    using same_config_trans [OF same_config_has Cons.IH] by simp
qed

lemma same_config_sweep_pass [simp]: "same_config c (sweep_pass now ks c)"
proof -
  have "same_config c1 (c1\<lparr>cleaner := map_option f (cleaner c1)\<rparr>)" for c1 f
    by (simp add: same_config_def)
  then show ?thesis
    unfolding sweep_pass_def Let_def
    by (auto intro: same_config_trans [OF same_config_sweep_keys])
qed

lemma same_config_step: "same_config c (snd (step codec now call c))"
  by (cases call) (simp_all add: Set_def Has_def split: prod.splits,
      (metis same_config_Add same_config_set same_config_Get same_config_Pull same_config_has snd_conv)+)

lemma same_config_run: "same_config c (snd (run codec calls c))"
proof (induction calls arbitrary: c)
  case Nil
  then show ?case by simp
next
  case (Cons a calls)
  obtain now call where a: "a = (now, call)" by (cases a)
  have "snd (run codec (a # calls) c) = snd (run codec calls (snd (step codec now call c)))"
    by (simp add: a split: prod.splits)
  then show ?case
    using same_config_trans [OF same_config_step Cons.IH] by simp
qed

subsection \<open>One pass of the sweeper\<close>

lemma sweep_keys_Cons: "sweep_keys now (k # ks) c = sweep_keys now ks (snd (has now k c))"
  by (simp add: sweep_keys_def)

lemma sweep_keys_Map:
  "cacheType c = cacheTypeDefault \<Longrightarrow>
   sweep_keys now ks c =
     c\<lparr>items := (\<lambda>k. if k \<in> List.set ks \<and> stale now k c then None else items c k)\<rparr>"
proof (induction ks arbitrary: c)
  case Nil
  then show ?case by (simp add: sweep_keys_def)
next
  case (Cons k ks)
  define c1 where "c1 = snd (has now k c)"
  have c1: "c1 = (if stale now k c then c\<lparr>items := (items c)(k := None)\<rparr> else c)"
    using Cons.prems by (simp add: c1_def has_state local_backend_def Delete_def)
  then have t: "cacheType c1 = cacheTypeDefault"
    using Cons.prems by simp
  have eq: "(\<lambda>k'. if k' \<in> List.set ks \<and> stale now k' c1 then None else items c1 k') =
            (\<lambda>k'. if k' \<in> List.set (k # ks) \<and> stale now k' c then None else items c k')"
    using Cons.prems by (auto simp: c1 stale_def fun_eq_iff split: option.splits)
  have "sweep_keys now (k # ks) c =
        c1\<lparr>items := (\<lambda>k'. if k' \<in> List.set ks \<and> stale now k' c1 then None else items c1 k')\<rparr>"
    unfolding sweep_keys_Cons c1_def [symmetric] by (rule Cons.IH [OF t])
  also have "\<dots> =
        c1\<lparr>items := (\<lambda>k'. if k' \<in> List.set (k # ks) \<and> stale now k' c then None else items c k')\<rparr>"
    by (simp only: eq)
  also have "\<dots> =
        c\<lparr>items := (\<lambda>k'. if k' \<in> List.set (k # ks) \<and> stale now k' c then None else items c k')\<rparr>"
    by (simp add: c1)
  finally show ?case .
qed

lemma key_path_inj [simp]: "key_path c k = key_path c k' \<longleftrightarrow> k = k'"
  by (simp add: key_path_def)

lemma sweep_keys_File:
  "cacheType c = cacheTypeFile \<Longrightarrow>
   sweep_keys now ks c =
     c\<lparr>disk := (disk c)\<lparr>files :=
       (\<lambda>p. if \<exists>k \<in> List.set ks. p = key_path c k \<and> stale now k c then None
            else files (disk c) p)\<rparr>\<rparr>"
proof (induction ks arbitrary: c)
  case Nil
  then show ?case by (simp add: sweep_keys_def)
next
  case (Cons k ks)
  define c1 where "c1 = snd (has now k c)"
  have c1: "c1 = (if stale now k c
                  then c\<lparr>disk := (disk c)\<lparr>files := (files (disk c))(key_path c k := None)\<rparr>\<rparr>
                  else c)"
    using Cons.prems by (simp add: c1_def has_state local_backend_def Delete_def os_Remove_def)
  then have t: "cacheType c1 = cacheTypeFile"
    using Cons.prems by simp
  have kp: "key_path c1 = key_path c"
    by (simp add: c1)
  have eq: "(\<lambda>p. if \<exists>k' \<in> List.set ks. p = key_path c1 k' \<and> stale now k' c1 then None
                 else files (disk c1) p) =
            (\<lambda>p. if \<exists>k' \<in> List.set (k # ks). p = key_path c k' \<and> stale now k' c then None
                 else files (disk c) p)"
    using Cons.prems by (auto simp: c1 stale_def fun_eq_iff split: option.splits)
  have "sweep_keys now (k # ks) c =
        c1\<lparr>disk := (disk c1)\<lparr>files :=
          (\<lambda>p. if \<exists>k' \<in> List.set ks. p = key_path c1 k' \<and> stale now k' c1 then None
               else files (disk c1) p)\<rparr>\<rparr>"
    unfolding sweep_keys_Cons c1_def [symmetric] by (rule Cons.IH [OF t])
  also have "\<dots> =
        c1\<lparr>disk := (disk c1)\<lparr>files :=
          (\<lambda>p. if \<exists>k' \<in> List.set (k # ks). p = key_path c k' \<and> stale now k' c then None
               else files (disk c) p)\<rparr>\<rparr>"
    by (simp only: eq)
  also have "\<dots> =
        c\<lparr>disk := (disk c)\<lparr>files :=
          (\<lambda>p. if \<exists>k' \<in> List.set (k # ks). p = key_path c k' \<and> stale now k' c then None
               else files (disk c) p)\<rparr>\<rparr>"
    by (simp add: c1)
  finally show ?case .
qed

lemma sweep_keys_cleaner [simp]: "cleaner (sweep_keys now ks c) = cleaner c"
proof (induction ks arbitrary: c)
  case Nil
  then show ?case by (simp add: sweep_keys_def)
next
  case (Cons k ks)
  have "cleaner (snd (has now k c)) = cleaner c"
    by (simp add: has_state Delete_def)
  then show ?case
    by (simp add: sweep_keys_Cons Cons.IH)
qed

lemma sweep_keys_expiration [simp]: "expiration (sweep_keys now ks c) = expiration c"
  using same_config_sweep_keys [of c now ks] by (simp add: same_config_def)

lemma sweep_pass_rearm:
  "cleaner (sweep_pass now ks c) = map_option (\<lambda>cl. cl\<lparr>interval := expiration c\<rparr>) (cleaner c)"
  by (simp add: sweep_pass_def Let_def)

lemma sweep_pass_Map:
  "cacheType c = cacheTypeDefault \<Longrightarrow>
   cacheType (sweep_pass now ks c) = cacheTypeDefault \<and>
   items (sweep_pass now ks c) =
     (\<lambda>k. if k \<in> List.set ks \<and> stale now k c then None else items c k)"
  by (simp add: sweep_pass_def Let_def sweep_keys_Map)

lemma sweep_pass_File:
  "cacheType c = cacheTypeFile \<Longrightarrow>
   cacheType (sweep_pass now ks c) = cacheTypeFile \<and>
   expiration (sweep_pass now ks c) = expiration c \<and>
   key_path (sweep_pass now ks c) = key_path c \<and>
   files (disk (sweep_pass now ks c)) =
     (\<lambda>p. if \<exists>k \<in> List.set (cacheFiles c). p = key_path c k \<and> stale now k c then None
          else files (disk c) p)"
  by (simp add: sweep_pass_def Let_def sweep_keys_File key_path_def fun_eq_iff)

text \<open>
  What a pass does to the entries of a local backend, in the vocabulary of the
  specification: a key among those the pass visits is not stale afterwards, an entry that
  was not stale is kept as it was, and nothing appears.
\<close>

lemma sweep_pass_local:
  assumes "local_backend c"
  shows "(k \<in> (if cacheType c = cacheTypeDefault then List.set ks
                else List.set (cacheFiles c)) \<longrightarrow>
            \<not> stale now k (sweep_pass now ks c)) \<and>
         (\<not> stale now k c \<longrightarrow>
            present k (sweep_pass now ks c) = present k c \<and>
            payload k (sweep_pass now ks c) = payload k c) \<and>
         (present k (sweep_pass now ks c) \<longrightarrow> present k c)"
proof (cases "cacheType c = cacheTypeDefault")
  case True
  note m = sweep_pass_Map [OF True, of now ks]
  show ?thesis
    using True by (auto simp: m vocab_defs split: option.splits)
next
  case False
  with assms(1) have f: "cacheType c = cacheTypeFile"
    by (simp add: local_backend_def)
  note m = sweep_pass_File [OF f, of now ks]
  show ?thesis
    using f by (auto simp: m vocab_defs split: option.splits)
qed

section \<open>Properties of the specification\<close>











text \<open>
  C5. An instance built by any constructor with a TTL \<open>d \<le> 0\<close>, after any sequence of
  calls: a successful \<open>Set\<close> records no expiry (the timestamp of the Local Map item is 0,
  the TTL handed to redis or memcache is 0 and the stored entry has no deadline), the entry
  is stale at no clock reading, and \<open>Get\<close> at every clock reading returns the encoding,
  never \<open>ErrCacheExpired\<close>.
\<close>

theorem zero_ttl_never_expires:
  assumes "d \<le>s 0"
    and "NewDefaultCache d = Inr c0 \<or> NewFileCache d path fs = Inr c0 \<or>
         NewRedisCache d server = Inr c0 \<or> NewMemCache d server' = Inr c0"
    and "c = snd (run codec calls c0)"
    and "codec v = Some val"
    and "Set codec t0 key v c = (None, c1)"
    and "readable key c"
  shows "write_ttl c = 0 \<and>
         (cacheType c = cacheTypeDefault \<longrightarrow>
            map_option item_expiration (items c1 key) = Some 0) \<and>
         (cacheType c = cacheTypeRedis \<longrightarrow>
            map_option kv_deadline (kv_entries (redisClient c1) key) = Some 0) \<and>
         (cacheType c = cacheTypeMemcache \<longrightarrow>
            map_option kv_deadline (kv_entries (memCacheClient c1) key) = Some 0) \<and>
         (\<forall>t. \<not> stale t key c1 \<and> Get t key c1 = (Inr val, c1) \<and>
              fst (Get t key c1) \<noteq> Inl ErrCacheExpired)"
proof -
  have c0: "expiration c0 = 0" "known_backend c0"
    using new_zero_ttl [OF assms(1) assms(2)] by simp_all
  have "same_config c0 c"
    unfolding assms(3) by (rule same_config_run)
  with c0 have c: "expiration c = 0" "known_backend c"
    by (simp_all add: same_config_def known_backend_def)
  then have ttl: "write_ttl c = 0"
    by (simp add: write_ttl_def)
  note s = assms(5) [unfolded Set_def]
  have rec: "(cacheType c = cacheTypeDefault \<longrightarrow>
            map_option item_expiration (items c1 key) = Some 0) \<and>
         (cacheType c = cacheTypeRedis \<longrightarrow>
            map_option kv_deadline (kv_entries (redisClient c1) key) = Some 0) \<and>
         (cacheType c = cacheTypeMemcache \<longrightarrow>
            map_option kv_deadline (kv_entries (memCacheClient c1) key) = Some 0)"
    using set_records [OF s assms(4)] c(1) by simp
  have get: "\<not> stale t key c1 \<and> Get t key c1 = (Inr val, c1)" for t
  proof -
    note eff = set_effect [OF s assms(4) c(2), of t]
    from eff ttl have "\<not> stale t key c1"
      by auto
    with eff assms(6) show ?thesis
      by (simp add: Get_eq)
  qed
  show ?thesis
    using ttl rec get by simp
qed

theorem zero_ttl_never_expires_witness:
  "(0 :: int64) \<le>s 0 \<and>
   NewDefaultCache 0 = Inr forever_cache \<and>
   forever_cache = snd (run test_codec [] forever_cache) \<and>
   test_codec (Some test_value) = Some test_value \<and>
   Set test_codec 100 ''cache_key'' (Some test_value) forever_cache =
     (None, forever_cache_written) \<and>
   readable ''cache_key'' forever_cache \<and>
   write_ttl forever_cache = 0 \<and>
   map_option item_expiration (items forever_cache_written ''cache_key'') = Some 0 \<and>
   \<not> stale 9223372036854775807 ''cache_key'' forever_cache_written \<and>
   Get 9223372036854775807 ''cache_key'' forever_cache_written =
     (Inr test_value, forever_cache_written)"
  using zero_ttl_never_expires [of 0 forever_cache "''cache''" empty_disk empty_server
      empty_server forever_cache test_codec "[]" "Some test_value" test_value 100
      "''cache_key''" forever_cache_written]
  by (simp add: test_defs eval_defs)



text \<open>
  C7. Once a key has been written through the instance (by a successful \<open>Set\<close> or \<open>Add\<close>),
  whatever calls and timer events follow, \<open>Has\<close> of that key is false after \<open>Flush\<close>, at
  every clock reading. A second \<open>Flush\<close> changes nothing, and \<open>Delete\<close> of a key with no
  entry changes nothing; neither has an error result to return.
\<close>

theorem flush_delete_contract:
  "(Set codec t0 key v c0 = (None, c1) \<or> Add codec t0 key v c0 = (None, c1) \<longrightarrow>
      \<not> fst (Has t key (Flush (snd (run codec calls c1))))) \<and>
   Flush (Flush c) = Flush c \<and>
   (\<not> present k c \<longrightarrow> Delete k c = c)"
proof (intro conjI impI)
  assume w: "Set codec t0 key v c0 = (None, c1) \<or> Add codec t0 key v c0 = (None, c1)"
  define c2 where "c2 = snd (run codec calls c1)"
  have cfg: "same_config c1 c2"
    unfolding c2_def by (rule same_config_run)
  have "key \<in> List.set (cacheFiles c1)" if f: "cacheType c1 = cacheTypeFile"
  proof -
    from w obtain c' where s: "set_cache codec t0 key v c' = (None, c1)"
      and c': "c' = c0 \<or> c' = snd (has t0 key c0)"
      by (auto simp: Set_def Add_eq split: if_splits)
    have "same_config c' c1"
      using same_config_set [of c' codec t0 key v] s by simp
    with f have "cacheType c' = cacheTypeFile"
      by (simp add: same_config_def)
    with s show ?thesis
      by (rule set_known)
  qed
  with cfg have "cacheType c2 = cacheTypeFile \<longrightarrow> key \<in> List.set (cacheFiles c2)"
    by (auto simp: same_config_def)
  then show "\<not> fst (Has t key (Flush (snd (run codec calls c1))))"
    unfolding Has_def c2_def [symmetric] by (rule has_Flush)
next
  show "Flush (Flush c) = Flush c"
    by (rule Flush_idem)
next
  assume "\<not> present k c"
  then show "Delete k c = c"
    by (rule Delete_absent_id)
qed

theorem flush_delete_contract_witness:
  "Set test_codec 100 ''cache_key'' (Some test_value) test_file_cache =
     (None, test_file_cache_written) \<and>
   fst (Has 200 ''cache_key'' test_file_cache_written) \<and>
   \<not> fst (Has 200 ''cache_key''
            (Flush (snd (run test_codec [(150, Call_Get ''cache_key'')]
                           test_file_cache_written)))) \<and>
   Flush (Flush test_file_cache_written) = Flush test_file_cache_written \<and>
   \<not> present ''other'' test_file_cache_written \<and>
   Delete ''other'' test_file_cache_written = test_file_cache_written"
  using flush_delete_contract [of test_codec 100 "''cache_key''" "Some test_value"
      test_file_cache test_file_cache_written 200 "[(150, Call_Get ''cache_key'')]"
      test_file_cache_written "''other''"]
  by (simp add: test_defs eval_defs)

text \<open>
  C8. A sweeper exists exactly on a Local Map or Local File instance built with a positive
  TTL: \<open>NewDefaultCache\<close> and \<open>NewFileCache\<close> create the cleaner, armed with the TTL, and
  start the goroutine if and only if the TTL is positive; \<open>NewRedisCache\<close> and
  \<open>NewMemCache\<close> never do; no call changes that. One pass of the sweeper on a local
  backend runs the existence check on every key it ranges over, so that none of them is
  stale afterwards (on Local Map, where the pass ranges over all keys of the map, no entry
  at all), keeps every entry that was not stale, creates none, and sets the timer to the
  TTL again.
\<close>

theorem sweeper_contract:
  "(\<forall>c. NewDefaultCache d = Inr c \<or> NewFileCache d path fs = Inr c \<longrightarrow>
        (sweeping c \<longleftrightarrow> 0 <s d) \<and>
        cleaner c = (if 0 <s d then Some \<lparr>interval = d, stop = False\<rparr> else None)) \<and>
   (\<forall>c. NewRedisCache d server = Inr c \<or> NewMemCache d server = Inr c \<longrightarrow>
        \<not> sweeping c \<and> cleaner c = None) \<and>
   sweeping (snd (run codec calls c)) = sweeping c \<and>
   (local_backend c \<longrightarrow>
      (k \<in> (if cacheType c = cacheTypeDefault then List.set ks
             else List.set (cacheFiles c)) \<longrightarrow>
         \<not> stale now k (sweep_pass now ks c)) \<and>
      (\<not> stale now k c \<longrightarrow>
         present k (sweep_pass now ks c) = present k c \<and>
         payload k (sweep_pass now ks c) = payload k c) \<and>
      (present k (sweep_pass now ks c) \<longrightarrow> present k c)) \<and>
   (cacheType c = cacheTypeDefault \<and> dom (items c) \<subseteq> List.set ks \<longrightarrow>
      (\<forall>k'. \<not> stale now k' (sweep_pass now ks c))) \<and>
   cleaner (sweep_pass now ks c) =
     map_option (\<lambda>cl. cl\<lparr>interval := expiration c\<rparr>) (cleaner c)"
proof -
  have 1: "(sweeping c' \<longleftrightarrow> 0 <s d) \<and>
           cleaner c' = (if 0 <s d then Some \<lparr>interval = d, stop = False\<rparr> else None)"
    if "NewDefaultCache d = Inr c' \<or> NewFileCache d path fs = Inr c'" for c'
    using that
    by (auto simp: new_defs cache_consts word_sle_eq word_sless_alt split: if_splits)
  have 2: "\<not> sweeping c' \<and> cleaner c' = None"
    if "NewRedisCache d server = Inr c' \<or> NewMemCache d server = Inr c'" for c'
    using that by (auto simp: new_defs Let_def split: if_splits)
  have 3: "sweeping (snd (run codec calls c)) = sweeping c"
    using same_config_run [of c codec calls] by (simp add: same_config_def)
  have 4: "\<not> stale now k' (sweep_pass now ks c)"
    if m: "cacheType c = cacheTypeDefault" and d: "dom (items c) \<subseteq> List.set ks" for k'
  proof (cases "k' \<in> List.set ks")
    case True
    with m show ?thesis
      using sweep_pass_local [of c k' ks now] by (simp add: local_backend_def)
  next
    case False
    with d have "\<not> present k' c"
      using m by (auto simp: present_def)
    with m have "\<not> present k' (sweep_pass now ks c)"
      using sweep_pass_local [of c k' ks now] by (simp add: local_backend_def)
    then show ?thesis
      using stale_present by blast
  qed
  show ?thesis
    using 1 2 3 4 sweep_pass_local [of c k ks now] sweep_pass_rearm [of now ks c]
    by blast
qed

theorem sweeper_contract_witness:
  "NewDefaultCache 5000000000 = Inr test_cache \<and>
   sweeping test_cache \<and>
   cleaner test_cache = Some \<lparr>interval = 5000000000, stop = False\<rparr> \<and>
   NewDefaultCache 0 = Inr forever_cache \<and>
   \<not> sweeping forever_cache \<and>
   NewRedisCache 5000000000 empty_server =
     Inr (projr (NewRedisCache 5000000000 empty_server)) \<and>
   \<not> sweeping (projr (NewRedisCache 5000000000 empty_server)) \<and>
   sweeping (snd (run test_codec [(100, Call_Set ''cache_key'' (Some test_value))] test_cache)) \<and>
   local_backend test_cache_written \<and>
   stale 6000000000 ''cache_key'' test_cache_written \<and>
   \<not> stale 6000000000 ''cache_key''
       (sweep_pass 6000000000 [''cache_key''] test_cache_written) \<and>
   \<not> stale 200 ''cache_key'' test_cache_written \<and>
   payload ''cache_key'' (sweep_pass 200 [''cache_key''] test_cache_written) =
     Some test_value \<and>
   cleaner (sweep_pass 200 [''cache_key''] test_cache_written) =
     Some \<lparr>interval = 5000000000, stop = False\<rparr>"
  using sweeper_contract [where d = 5000000000 and path = "''cache''" and fs = empty_disk
      and server = empty_server and codec = test_codec
      and calls = "[(100, Call_Set ''cache_key'' (Some test_value))]" and c = test_cache
      and k = "''cache_key''" and ks = "[''cache_key'']" and now = 6000000000]
    sweeper_contract [where d = 0 and path = "''cache''" and fs = empty_disk
      and server = empty_server and codec = test_codec and calls = "[]"
      and c = test_cache_written and k = "''cache_key''" and ks = "[''cache_key'']"
      and now = 6000000000]
    sweeper_contract [where d = 0 and path = "''cache''" and fs = empty_disk
      and server = empty_server and codec = test_codec and calls = "[]"
      and c = test_cache_written and k = "''cache_key''" and ks = "[''cache_key'']"
      and now = 200]
  by (simp add: test_defs eval_defs sweep_pass_def sweep_keys_def)

text \<open>
  C9. On the redis and memcache backends \<open>Get\<close> and \<open>Pull\<close> never return
  \<open>ErrCacheExpired\<close>: the only error they return is \<open>ErrCacheNotFound\<close>, which is what the
  caller sees when the store cannot be reached, holds no entry, or holds one whose
  store-side deadline has passed.
\<close>

theorem remote_read_never_expired:
  assumes "cacheType c = cacheTypeRedis \<or> cacheType c = cacheTypeMemcache"
  shows "fst (Get now key c) \<noteq> Inl ErrCacheExpired \<and>
         fst (Pull now key c) \<noteq> Inl ErrCacheExpired \<and>
         (\<forall>e. fst (Get now key c) = Inl e \<or> fst (Pull now key c) = Inl e \<longrightarrow>
                e = ErrCacheNotFound) \<and>
         (\<not> reachable c \<or> \<not> present key c \<or> stale now key c \<longrightarrow>
            Get now key c = (Inl ErrCacheNotFound, c) \<and>
            Pull now key c = (Inl ErrCacheNotFound, c)) \<and>
         (cacheType c = cacheTypeRedis \<and> kv_Get (redisClient c) now key = None \<longrightarrow>
            fst (Get now key c) = Inl ErrCacheNotFound) \<and>
         (cacheType c = cacheTypeMemcache \<and> kv_Get (memCacheClient c) now key = None \<longrightarrow>
            fst (Get now key c) = Inl ErrCacheNotFound)"
proof -
  have nl: "\<not> local_backend c"
    using assms by (auto simp: local_backend_def)
  have "cacheType c = cacheTypeRedis \<and> kv_Get (redisClient c) now key = None \<longrightarrow>
          fst (Get now key c) = Inl ErrCacheNotFound"
    by (simp add: Get_def getRedisCache_def)
  moreover have "cacheType c = cacheTypeMemcache \<and> kv_Get (memCacheClient c) now key = None \<longrightarrow>
          fst (Get now key c) = Inl ErrCacheNotFound"
    by (simp add: Get_def getMemCache_def)
  ultimately show ?thesis
    using nl by (auto simp: Get_eq Pull_eq)
qed

theorem remote_read_never_expired_witness:
  "cacheType test_redis_cache = cacheTypeRedis \<and>
   reachable test_redis_cache \<and>
   present ''cache_key'' test_redis_cache \<and>
   stale 100 ''cache_key'' test_redis_cache \<and>
   Get 100 ''cache_key'' test_redis_cache = (Inl ErrCacheNotFound, test_redis_cache) \<and>
   Pull 100 ''cache_key'' test_redis_cache = (Inl ErrCacheNotFound, test_redis_cache) \<and>
   fst (Get 100 ''cache_key'' test_redis_cache) \<noteq> Inl ErrCacheExpired"
  using remote_read_never_expired [of test_redis_cache 100 "''cache_key''"]
  by (simp add: test_defs eval_defs)

text \<open>
  C10. A constructor given a strictly negative TTL returns what it returns for TTL 0, on
  each of the four backends: the stored TTL is 0, there is no cleaner and no sweeper
  goroutine, and every sequence of calls and timer events gives the same results and the
  same final instance as on the zero-TTL instance.
\<close>

theorem negative_ttl_is_zero_ttl:
  assumes "d <s 0"
  shows "NewDefaultCache d = NewDefaultCache 0 \<and>
         NewFileCache d path fs = NewFileCache 0 path fs \<and>
         NewRedisCache d server = NewRedisCache 0 server \<and>
         NewMemCache d server = NewMemCache 0 server \<and>
         (\<forall>c. NewDefaultCache d = Inr c \<or> NewFileCache d path fs = Inr c \<or>
              NewRedisCache d server = Inr c \<or> NewMemCache d server = Inr c \<longrightarrow>
              expiration c = 0 \<and> cleaner c = None \<and> \<not> sweeping c) \<and>
         map_sum id (run codec calls) (NewDefaultCache d) =
           map_sum id (run codec calls) (NewDefaultCache 0) \<and>
         map_sum id (run codec calls) (NewFileCache d path fs) =
           map_sum id (run codec calls) (NewFileCache 0 path fs) \<and>
         map_sum id (run codec calls) (NewRedisCache d server) =
           map_sum id (run codec calls) (NewRedisCache 0 server) \<and>
         map_sum id (run codec calls) (NewMemCache d server) =
           map_sum id (run codec calls) (NewMemCache 0 server)"
proof -
  have le: "d \<le>s defaultExpiration"
    using assms by (simp add: defaultExpiration_def word_sle_eq word_sless_alt)
  have 1: "NewDefaultCache d = NewDefaultCache 0"
    using le by (simp add: NewDefaultCache_def defaultExpiration_def)
  have 2: "NewFileCache d path fs = NewFileCache 0 path fs"
    using le by (simp add: NewFileCache_def defaultExpiration_def)
  have 3: "NewRedisCache d server = NewRedisCache 0 server"
    using le by (simp add: NewRedisCache_def defaultExpiration_def)
  have 4: "NewMemCache d server = NewMemCache 0 server"
    using le by (simp add: NewMemCache_def defaultExpiration_def)
  have 5: "expiration c = 0 \<and> cleaner c = None \<and> \<not> sweeping c"
    if "NewDefaultCache d = Inr c \<or> NewFileCache d path fs = Inr c \<or>
        NewRedisCache d server = Inr c \<or> NewMemCache d server = Inr c" for c
    using that le
    by (auto simp: new_defs kv_Ping_def defaultExpiration_def Let_def split: if_splits)
  show ?thesis
    using 5 by (simp add: 1 2 3 4)
qed

theorem negative_ttl_is_zero_ttl_witness:
  "(- 1 :: int64) <s 0 \<and>
   NewDefaultCache (- 1) = NewDefaultCache 0 \<and>
   NewFileCache (- 1) ''cache'' empty_disk = NewFileCache 0 ''cache'' empty_disk \<and>
   NewRedisCache (- 1) empty_server = NewRedisCache 0 empty_server \<and>
   NewMemCache (- 1) empty_server = NewMemCache 0 empty_server \<and>
   NewDefaultCache (- 1) = Inr forever_cache \<and>
   expiration forever_cache = 0 \<and>
   cleaner forever_cache = None \<and>
   \<not> sweeping forever_cache \<and>
   map_sum id (run test_codec [(100, Call_Set ''cache_key'' (Some test_value)),
                               (200, Call_Get ''cache_key'')]) (NewDefaultCache (- 1)) =
   map_sum id (run test_codec [(100, Call_Set ''cache_key'' (Some test_value)),
                               (200, Call_Get ''cache_key'')]) (NewDefaultCache 0)"
  using negative_ttl_is_zero_ttl [of "- 1" "''cache''" empty_disk empty_server test_codec
      "[(100, Call_Set ''cache_key'' (Some test_value)), (200, Call_Get ''cache_key'')]"]
  by (simp add: test_defs new_defs cache_consts word_sle_eq word_sless_alt)

end
